theory Spec2Isabelle
  imports Main
begin

section \<open>Python values met by the handlers\<close>

text \<open>
  The service is a single module: pydantic models, two hand-written validators and eleven
  route handlers that talk to a MySQL store through an aiomysql cursor.  Modelled here are
  the validators and the eight handlers that create or change an event, create a user, or
  read one row by identifier.

  A Python \<open>str\<close> is the sequence of its Unicode code points.  A string literal of the
  source is written \<open>lit ''...''\<close>, and \<open>ord\<close> gives the code point of a literal character.
  Only the details of exceptions and the bodies of responses, which are fixed texts of the
  source, are kept as plain literals.
\<close>

type_synonym str = "nat list"

definition ord :: "char \<Rightarrow> nat" where
  "ord c = of_char c"

definition lit :: "string \<Rightarrow> str" where
  "lit s = map ord s"

text \<open>
  A column value read through the plain cursor is \<open>None\<close>, an \<open>int\<close> or a \<open>str\<close>; a row is
  a Python tuple of column values.  Python's \<open>==\<close> never identifies an \<open>int\<close> with a
  \<open>str\<close>, which is exactly the equality of the datatype below.
\<close>

datatype pyval = PyNone | PyInt int | PyStr str

type_synonym row = "pyval list"

text \<open>
  A Python \<open>datetime\<close>: the point on the time line that it denotes, in microseconds since
  the epoch; its date and time fields from the year down to the second, counted in
  seconds; its microsecond field; and its UTC offset in seconds, \<open>None\<close> for a naive value.
\<close>

record datetime =
  instant :: int
  wallclock :: int
  microsecond :: nat
  utcoffset :: "int option"

datatype exn =
    HTTPException nat string
  | IndexError
  | IntegrityError
  | RequestValidationError

text \<open>Truth value of a column value, as tested by \<open>if resp[0]:\<close>.\<close>

fun truthy :: "pyval \<Rightarrow> bool" where
  "truthy PyNone = False"
| "truthy (PyInt n) = (n \<noteq> 0)"
| "truthy (PyStr s) = (s \<noteq> [])"

text \<open>Truth value of a tuple: a tuple is false exactly when it is empty.\<close>

definition truthy_tuple :: "'a list \<Rightarrow> bool" where
  "truthy_tuple t = (t \<noteq> [])"

text \<open>Subscription \<open>t[i]\<close> of a tuple; out of range raises \<open>IndexError\<close>.\<close>

definition getitem :: "'a list \<Rightarrow> nat \<Rightarrow> exn + 'a" where
  "getitem t i = (if i < length t then Inr (t ! i) else Inl IndexError)"

subsection \<open>Decimal text of an integer and string splitting\<close>

fun nat_digits :: "nat \<Rightarrow> str" where
  "nat_digits n =
     (if n < 10 then [ord CHR ''0'' + n]
      else nat_digits (n div 10) @ [ord CHR ''0'' + n mod 10])"

declare nat_digits.simps [simp del]

text \<open>\<open>str(n)\<close> for a Python integer.\<close>

definition str_int :: "int \<Rightarrow> str" where
  "str_int i = (if i < 0 then ord CHR ''-'' # nat_digits (nat (- i)) else nat_digits (nat i))"

text \<open>The value interpolated by an f-string field \<open>{v}\<close>.\<close>

fun format :: "pyval \<Rightarrow> str" where
  "format PyNone = lit ''None''"
| "format (PyInt i) = str_int i"
| "format (PyStr s) = s"

text \<open>\<open>s.split(sep)\<close> for a one-character separator: the empty string splits into one
  empty field, and a trailing separator leaves a trailing empty field.\<close>

fun str_split :: "nat \<Rightarrow> str \<Rightarrow> str list" where
  "str_split sep [] = [[]]"
| "str_split sep (c # cs) =
     (if c = sep then [] # str_split sep cs
      else (case str_split sep cs of
              [] \<Rightarrow> [[c]]
            | w # ws \<Rightarrow> (c # w) # ws))"

section \<open>The store\<close>

text \<open>
  The three tables created at start-up.  Field names carry a table prefix, since a record
  field is a global constant.  \<open>members\<close> is a nullable \<open>TEXT\<close> column; \<open>isadmin\<close> is a
  \<open>BOOLEAN\<close>, read back as the integer 1 or 0.  Each table has an \<open>AUTO_INCREMENT\<close>
  counter.  The store is modelled at the level the handlers use it: a text parameter is
  stored as bound, \<open>WHERE name = %s\<close> is equality of names, and the only constraint that
  rejects a statement is \<open>UNIQUE\<close> on \<open>users.name\<close>.

  \<open>event.time\<close> is a \<open>DATETIME\<close> column: it holds a date and time of day at the precision of
  one second, here counted in seconds, and no UTC offset.  The driver writes a bound
  \<open>datetime\<close> as its date and time fields, with the microseconds when there are any and
  without the offset; the server rounds the fraction of a second to the column's
  precision, or cuts it off when its SQL mode \<open>TIME_TRUNCATE_FRACTIONAL\<close> is set.
\<close>

definition as_DATETIME :: "bool \<Rightarrow> datetime \<Rightarrow> int" where
  "as_DATETIME truncating v =
     (if truncating then wallclock v
      else if microsecond v < 500000 then wallclock v
      else wallclock v + 1)"

record user_row =
  u_id :: int
  u_name :: str
  u_surname :: str
  u_email :: str
  u_password :: str
  u_phone :: str
  u_isadmin :: bool

record event_row =
  e_id :: int
  e_title :: str
  e_user :: str
  e_description :: str
  e_members :: "str option"
  e_time :: int

record book_row =
  b_id :: int
  b_title :: str
  b_author :: str
  b_description :: str
  b_count :: int
  b_year :: int

text \<open>The tables, the counters of \<open>users\<close> and \<open>event\<close>, and the one setting of the server
  that the handlers can observe.\<close>

record database =
  users :: "user_row list"
  event :: "event_row list"
  books :: "book_row list"
  users_auto_increment :: int
  event_auto_increment :: int
  time_truncate_fractional :: bool

text \<open>The statements the handlers send, one constructor per SQL text in the source.\<close>

datatype statement =
    SELECT_isadmin_FROM_users_WHERE_name str
  | SELECT_id_FROM_event_WHERE_id int
  | SELECT_members_FROM_event_WHERE_id int
  | SELECT_id_FROM_users_WHERE_id int
  | INSERT_INTO_event str str str datetime
  | INSERT_INTO_users str str str str str bool
  | UPDATE_event_SET_title_description str str int
  | UPDATE_event_SET_time datetime int
  | UPDATE_event_SET_members str int
  | DELETE_FROM_event_WHERE_id int
  | SELECT_all_FROM_books_WHERE_id str
  | SELECT_all_FROM_event_WHERE_id str
  | COMMIT

text \<open>
  A connection opened by \<open>get_mysql_connection\<close>.  aiomysql connects with autocommit off:
  statements act on the transaction's working copy, and only \<open>commit\<close> makes it durable.
  \<open>executed\<close> is the sequence of statements sent so far.
\<close>

record connection =
  working :: database
  durable :: database
  executed :: "statement list"

definition get_mysql_connection :: "database \<Rightarrow> connection" where
  "get_mysql_connection db = \<lparr>working = db, durable = db, executed = []\<rparr>"

definition sent :: "statement \<Rightarrow> connection \<Rightarrow> connection" where
  "sent s c = c\<lparr>executed := executed c @ [s]\<rparr>"

definition commit :: "connection \<Rightarrow> connection" where
  "commit c = (sent COMMIT c)\<lparr>durable := working c\<rparr>"

definition isadmin_cell :: "user_row \<Rightarrow> pyval" where
  "isadmin_cell u = PyInt (if u_isadmin u then 1 else 0)"

definition members_cell :: "event_row \<Rightarrow> pyval" where
  "members_cell e = (case e_members e of None \<Rightarrow> PyNone | Some s \<Rightarrow> PyStr s)"

text \<open>The rows a \<open>SELECT\<close> through the plain cursor yields, and the effect of the other
  statements on the working copy.\<close>

fun result_rows :: "statement \<Rightarrow> database \<Rightarrow> row list" where
  "result_rows (SELECT_isadmin_FROM_users_WHERE_name n) db =
     map (\<lambda>u. [isadmin_cell u]) (filter (\<lambda>u. u_name u = n) (users db))"
| "result_rows (SELECT_id_FROM_event_WHERE_id i) db =
     map (\<lambda>e. [PyInt (e_id e)]) (filter (\<lambda>e. e_id e = i) (event db))"
| "result_rows (SELECT_members_FROM_event_WHERE_id i) db =
     map (\<lambda>e. [members_cell e]) (filter (\<lambda>e. e_id e = i) (event db))"
| "result_rows (SELECT_id_FROM_users_WHERE_id i) db =
     map (\<lambda>u. [PyInt (u_id u)]) (filter (\<lambda>u. u_id u = i) (users db))"
| "result_rows _ db = []"

fun apply_statement :: "statement \<Rightarrow> database \<Rightarrow> exn + database" where
  "apply_statement (INSERT_INTO_event t u d tm) db =
     Inr (db\<lparr>event := event db @
                 [\<lparr>e_id = event_auto_increment db, e_title = t, e_user = u,
                   e_description = d, e_members = Some [],
                   e_time = as_DATETIME (time_truncate_fractional db) tm\<rparr>],
              event_auto_increment := event_auto_increment db + 1\<rparr>)"
| "apply_statement (INSERT_INTO_users n s e ph pw adm) db =
     (if list_ex (\<lambda>u. u_name u = n) (users db) then Inl IntegrityError
      else Inr (db\<lparr>users := users db @
                      [\<lparr>u_id = users_auto_increment db, u_name = n, u_surname = s,
                        u_email = e, u_password = pw, u_phone = ph, u_isadmin = adm\<rparr>],
                    users_auto_increment := users_auto_increment db + 1\<rparr>))"
| "apply_statement (UPDATE_event_SET_title_description t d i) db =
     Inr (db\<lparr>event := map (\<lambda>e. if e_id e = i then e\<lparr>e_title := t, e_description := d\<rparr> else e)
                          (event db)\<rparr>)"
| "apply_statement (UPDATE_event_SET_time tm i) db =
     Inr (db\<lparr>event := map (\<lambda>e. if e_id e = i
                                 then e\<lparr>e_time := as_DATETIME (time_truncate_fractional db) tm\<rparr>
                                 else e) (event db)\<rparr>)"
| "apply_statement (UPDATE_event_SET_members m i) db =
     Inr (db\<lparr>event := map (\<lambda>e. if e_id e = i then e\<lparr>e_members := Some m\<rparr> else e) (event db)\<rparr>)"
| "apply_statement (DELETE_FROM_event_WHERE_id i) db =
     Inr (db\<lparr>event := filter (\<lambda>e. e_id e \<noteq> i) (event db)\<rparr>)"
| "apply_statement _ db = Inr db"

text \<open>\<open>cursor.execute\<close>: the statement is sent; a rejected statement raises and leaves the
  working copy as it was, an accepted one yields its result rows.\<close>

definition execute :: "statement \<Rightarrow> connection \<Rightarrow> (exn + row list) \<times> connection" where
  "execute s c =
     (case apply_statement s (working c) of
        Inl e \<Rightarrow> (Inl e, sent s c)
      | Inr db' \<Rightarrow> (Inr (result_rows s (working c)), (sent s c)\<lparr>working := db'\<rparr>))"

text \<open>\<open>fetchone\<close> gives the next row or \<open>None\<close>, so \<open>isinstance(resp, tuple)\<close> on its
  result is the case distinction \<open>Some\<close>/\<open>None\<close>.  \<open>fetchall\<close> gives the tuple of all rows,
  which is a tuple also when it is empty: \<open>isinstance(resp, tuple)\<close> on its result always
  holds.\<close>

definition fetchone :: "row list \<Rightarrow> row option" where
  "fetchone rs = (case rs of [] \<Rightarrow> None | r # _ \<Rightarrow> Some r)"

definition fetchall :: "row list \<Rightarrow> row list" where
  "fetchall rs = rs"

text \<open>
  The two \<open>GET\<close>-by-id handlers use a \<open>DictCursor\<close>, whose rows are dictionaries keyed by
  column name (here: the row records), and bind the raw path string to \<open>WHERE id = %s\<close>.
  How the store compares an \<open>INT\<close> column with a string is the store's business and is
  taken as the parameter \<open>eq\<close>.
\<close>

definition execute_dict_event ::
  "(int \<Rightarrow> str \<Rightarrow> bool) \<Rightarrow> str \<Rightarrow> connection \<Rightarrow> event_row list \<times> connection" where
  "execute_dict_event eq p c =
     (filter (\<lambda>e. eq (e_id e) p) (event (working c)), sent (SELECT_all_FROM_event_WHERE_id p) c)"

definition execute_dict_books ::
  "(int \<Rightarrow> str \<Rightarrow> bool) \<Rightarrow> str \<Rightarrow> connection \<Rightarrow> book_row list \<times> connection" where
  "execute_dict_books eq p c =
     (filter (\<lambda>b. eq (b_id b) p) (books (working c)), sent (SELECT_all_FROM_books_WHERE_id p) c)"

section \<open>Request models and validators\<close>

record Event =
  ev_title :: str
  ev_user :: str
  ev_description :: str
  ev_time :: datetime

record EventEdit =
  ee_title :: str
  ee_user :: str
  ee_description :: str

record User =
  us_name :: str
  us_surname :: str
  us_email :: str
  us_password :: str
  us_phone :: str
  us_is_admin :: bool

text \<open>
  \<open>str.islower\<close>, \<open>str.isupper\<close> and \<open>str.isdigit\<close> of a single character are decided by the
  Unicode tables of the Python runtime, which the module does not define.  The tables are
  a parameter of the validators: every property below holds for every classification of
  the code points.
\<close>

record unicodedata =
  islower :: "nat \<Rightarrow> bool"
  isupper :: "nat \<Rightarrow> bool"
  isdigit :: "nat \<Rightarrow> bool"

text \<open>The literal of special characters in \<open>validate_password\<close>; backslash, the two
  quotes and the backquote are given by code.\<close>

definition special_characters :: str where
  "special_characters =
     lit (''!@#$%^&*()_-+=[]{}|'' @ [CHR 0x5C] @ '':;'' @ [CHR 0x22, CHR 0x27] @
          ''<>,.?/~'' @ [CHR 0x60])"

text \<open>An expression statement: its value is computed and dropped.\<close>

definition discard :: "'a \<Rightarrow> 'b \<Rightarrow> 'b" where
  "discard x k = k"

definition check_letters :: "unicodedata \<Rightarrow> str \<Rightarrow> exn + str" where
  "check_letters ud v =
     (if list_ex (isdigit ud) v
      then Inl (HTTPException 400 ''Fields 'name' and 'surname' must not contain numbers'')
      else Inr v)"

definition validate_password :: "unicodedata \<Rightarrow> str \<Rightarrow> exn + str" where
  "validate_password ud v =
     (if \<not> list_ex (islower ud) v
      then Inl (HTTPException 400 ''Password must contain at least one lowercase letter'')
      else if \<not> list_ex (isupper ud) v
      then Inl (HTTPException 400 ''Password must contain at least one uppercase letter'')
      else discard
             (if \<not> list_ex (isdigit ud) v
              then Some (HTTPException 400 ''Password must contain at least one digit'')
              else None)
             (discard
                (if \<not> list_ex (\<lambda>c. c \<in> set special_characters) v
                 then Some (HTTPException 400 ''Password must contain at least one special character'')
                 else None)
                (Inr v)))"

text \<open>\<open>FutureDatetime\<close>: the value must denote a point strictly after \<open>now\<close>, the instant of
  validation.\<close>

definition FutureDatetime :: "int \<Rightarrow> datetime \<Rightarrow> bool" where
  "FutureDatetime now v = (now < instant v)"

section \<open>Responses\<close>

datatype response =
    JSONResponse string nat
  | ReturnedEvents "event_row list"
  | ReturnedBooks "book_row list"

text \<open>
  The status the client sees.  A returned value is sent with the default status 200; an
  \<open>HTTPException\<close> carries its own status; a request that fails the declared parameter
  validation is answered 422 by the framework; any other exception that leaves a handler
  is answered 500.
\<close>

fun status_code :: "exn + response \<Rightarrow> nat" where
  "status_code (Inr (JSONResponse body code)) = code"
| "status_code (Inr (ReturnedEvents rs)) = 200"
| "status_code (Inr (ReturnedBooks rs)) = 200"
| "status_code (Inl (HTTPException code detail)) = code"
| "status_code (Inl RequestValidationError) = 422"
| "status_code (Inl IndexError) = 500"
| "status_code (Inl IntegrityError) = 500"

section \<open>Route handlers\<close>

text \<open>
  A handler takes its validated parameters and the store as the request finds it, opens
  its own connection, and leaves with an outcome: the value returned or the exception
  raised, the durable store after the request, and the statements it sent.  An
  \<open>aiomysql.Error\<close> is re-raised as it is.  The parameters \<open>id\<close> and \<open>event\<close> of the
  source are written \<open>id'\<close> and \<open>event'\<close>, \<open>datetime_\<close> is \<open>datetime'\<close>.
\<close>

type_synonym outcome = "(exn + response) \<times> database \<times> statement list"

definition leave :: "exn + response \<Rightarrow> connection \<Rightarrow> outcome" where
  "leave r c = (r, durable c, executed c)"

definition create_event :: "Event \<Rightarrow> database \<Rightarrow> outcome" where
  "create_event event' db =
     (case execute (SELECT_isadmin_FROM_users_WHERE_name (ev_user event')) (get_mysql_connection db) of
        (Inl e, c1) \<Rightarrow> leave (Inl e) c1
      | (Inr rs, c1) \<Rightarrow>
          (case fetchone rs of
             None \<Rightarrow> leave (Inl (HTTPException 404 ''User not found'')) c1
           | Some resp \<Rightarrow>
               (case getitem resp 0 of
                  Inl e \<Rightarrow> leave (Inl e) c1
                | Inr flag \<Rightarrow>
                    if truthy flag then
                      (case execute (INSERT_INTO_event (ev_title event') (ev_user event')
                                       (ev_description event') (ev_time event')) c1 of
                         (Inl e, c2) \<Rightarrow> leave (Inl e) c2
                       | (Inr _, c2) \<Rightarrow>
                           leave (Inr (JSONResponse ''Event has been added.'' 201)) (commit c2))
                    else leave (Inl (HTTPException 403 ''User hasn`t permissions for create event'')) c1)))"

definition create_user :: "unicodedata \<Rightarrow> User \<Rightarrow> database \<Rightarrow> outcome" where
  "create_user ud user db =
     (case check_letters ud (us_name user) of
        Inl e \<Rightarrow> (Inl e, db, [])
      | Inr _ \<Rightarrow>
     (case check_letters ud (us_surname user) of
        Inl e \<Rightarrow> (Inl e, db, [])
      | Inr _ \<Rightarrow>
     (case validate_password ud (us_password user) of
        Inl e \<Rightarrow> (Inl e, db, [])
      | Inr _ \<Rightarrow>
     (case execute (INSERT_INTO_users (us_name user) (us_surname user) (us_email user)
                      (us_phone user) (us_password user) (us_is_admin user))
             (get_mysql_connection db) of
        (Inl IntegrityError, c1) \<Rightarrow> leave (Inl (HTTPException 400 ''User already exists'')) c1
      | (Inl e, c1) \<Rightarrow> leave (Inl e) c1
      | (Inr _, c1) \<Rightarrow> leave (Inr (JSONResponse ''User has been added.'' 201)) (commit c1)))))"

definition get_for_id_book :: "(int \<Rightarrow> str \<Rightarrow> bool) \<Rightarrow> str \<Rightarrow> database \<Rightarrow> outcome" where
  "get_for_id_book eq book_id db =
     (case execute_dict_books eq book_id (get_mysql_connection db) of
        (resp, c1) \<Rightarrow> leave (Inr (ReturnedBooks resp)) c1)"

definition get_for_id_event :: "(int \<Rightarrow> str \<Rightarrow> bool) \<Rightarrow> str \<Rightarrow> database \<Rightarrow> outcome" where
  "get_for_id_event eq event_id db =
     (case execute_dict_event eq event_id (get_mysql_connection db) of
        (resp, c1) \<Rightarrow> leave (Inr (ReturnedEvents resp)) c1)"

definition update_event :: "int \<Rightarrow> EventEdit \<Rightarrow> database \<Rightarrow> outcome" where
  "update_event id' event' db =
     (case execute (SELECT_isadmin_FROM_users_WHERE_name (ee_user event')) (get_mysql_connection db) of
        (Inl e, c1) \<Rightarrow> leave (Inl e) c1
      | (Inr rs, c1) \<Rightarrow>
          (case fetchone rs of
             None \<Rightarrow> leave (Inl (HTTPException 404 ''User not found'')) c1
           | Some resp \<Rightarrow>
               (case getitem resp 0 of
                  Inl e \<Rightarrow> leave (Inl e) c1
                | Inr flag \<Rightarrow>
                    if truthy flag then
                      (case execute (SELECT_id_FROM_event_WHERE_id id') c1 of
                         (Inl e, c2) \<Rightarrow> leave (Inl e) c2
                       | (Inr rs2, c2) \<Rightarrow>
                           (case fetchone rs2 of
                              None \<Rightarrow> leave (Inl (HTTPException 404 ''Event not found'')) c2
                            | Some check \<Rightarrow>
                                (case execute (UPDATE_event_SET_title_description
                                                 (ee_title event') (ee_description event') id') c2 of
                                   (Inl e, c3) \<Rightarrow> leave (Inl e) c3
                                 | (Inr _, c3) \<Rightarrow>
                                     leave (Inr (JSONResponse ''Event has been updated.'' 200))
                                       (commit c3))))
                    else leave (Inl (HTTPException 403 ''User hasn`t permissions for edit event'')) c1)))"

definition update_date :: "int \<Rightarrow> str \<Rightarrow> datetime \<Rightarrow> database \<Rightarrow> outcome" where
  "update_date id' user datetime' db =
     (case execute (SELECT_isadmin_FROM_users_WHERE_name user) (get_mysql_connection db) of
        (Inl e, c1) \<Rightarrow> leave (Inl e) c1
      | (Inr rs, c1) \<Rightarrow>
          (case fetchone rs of
             None \<Rightarrow> leave (Inl (HTTPException 404 ''User not found'')) c1
           | Some resp \<Rightarrow>
               (case getitem resp 0 of
                  Inl e \<Rightarrow> leave (Inl e) c1
                | Inr flag \<Rightarrow>
                    if truthy flag then
                      (case execute (SELECT_id_FROM_event_WHERE_id id') c1 of
                         (Inl e, c2) \<Rightarrow> leave (Inl e) c2
                       | (Inr rs2, c2) \<Rightarrow>
                           (case fetchone rs2 of
                              None \<Rightarrow> leave (Inl (HTTPException 404 ''Event not found'')) c2
                            | Some check \<Rightarrow>
                                (case execute (UPDATE_event_SET_time datetime' id') c2 of
                                   (Inl e, c3) \<Rightarrow> leave (Inl e) c3
                                 | (Inr _, c3) \<Rightarrow>
                                     leave (Inr (JSONResponse ''Event has been updated.'' 200))
                                       (commit c3))))
                    else leave (Inl (HTTPException 403 ''User hasn`t permissions for edit event'')) c1)))"

text \<open>
  The reschedule route declares \<open>datetime_: FutureDatetime = Query(...)\<close>: the framework
  validates the query parameter at the instant \<open>now\<close> before it calls the handler, and
  answers a failed validation itself.
\<close>

definition PATCH_reschedule :: "int \<Rightarrow> int \<Rightarrow> str \<Rightarrow> datetime \<Rightarrow> database \<Rightarrow> outcome" where
  "PATCH_reschedule now id' user datetime' db =
     (if FutureDatetime now datetime' then update_date id' user datetime' db
      else (Inl RequestValidationError, db, []))"

definition update_members :: "int \<Rightarrow> str \<Rightarrow> int \<Rightarrow> database \<Rightarrow> outcome" where
  "update_members id' user member_id db =
     (case execute (SELECT_isadmin_FROM_users_WHERE_name user) (get_mysql_connection db) of
        (Inl e, c1) \<Rightarrow> leave (Inl e) c1
      | (Inr rs, c1) \<Rightarrow>
          (case fetchone rs of
             None \<Rightarrow> leave (Inl (HTTPException 404 ''User not found'')) c1
           | Some resp \<Rightarrow>
               (case getitem resp 0 of
                  Inl e \<Rightarrow> leave (Inl e) c1
                | Inr flag \<Rightarrow>
                    if truthy flag then
                      (case execute (SELECT_members_FROM_event_WHERE_id id') c1 of
                         (Inl e, c2) \<Rightarrow> leave (Inl e) c2
                       | (Inr rs2, c2) \<Rightarrow>
                           (case fetchone rs2 of
                              None \<Rightarrow> leave (Inl (HTTPException 404 ''Event not found'')) c2
                            | Some check \<Rightarrow>
                                (case execute (SELECT_id_FROM_users_WHERE_id member_id) c2 of
                                   (Inl e, c3) \<Rightarrow> leave (Inl e) c3
                                 | (Inr rs3, c3) \<Rightarrow>
                                     (case fetchone rs3 of
                                        None \<Rightarrow> leave (Inl (HTTPException 404 ''Member not found'')) c3
                                      | Some answer \<Rightarrow>
                                          (case getitem check 0 of
                                             Inl e \<Rightarrow> leave (Inl e) c3
                                           | Inr members \<Rightarrow>
                                          (case getitem answer 0 of
                                             Inl e \<Rightarrow> leave (Inl e) c3
                                           | Inr answer0 \<Rightarrow>
                                               if answer0 \<notin> set (map PyStr (str_split (ord CHR '','') (format members)))
                                               then
                                                 (case execute (UPDATE_event_SET_members
                                                         (format members @ str_int member_id @ lit '','') id') c3 of
                                                    (Inl e, c4) \<Rightarrow> leave (Inl e) c4
                                                  | (Inr _, c4) \<Rightarrow>
                                                      leave (Inr (JSONResponse ''Member has been added.'' 201))
                                                        (commit c4))
                                               else leave (Inl (HTTPException 409 ''Member already registed'')) c3))))))
                    else leave (Inl (HTTPException 403 ''User hasn`t permissions for edit event'')) c1)))"

text \<open>\<open>delete_event\<close> reads the administrator flag with \<open>fetchall\<close>, where its four siblings
  use \<open>fetchone\<close>: \<open>resp\<close> is the tuple of rows, \<open>resp[0]\<close> is the first row, itself a
  tuple, and the branch for a \<open>resp\<close> that is no tuple cannot be taken.\<close>

definition delete_event :: "int \<Rightarrow> str \<Rightarrow> database \<Rightarrow> outcome" where
  "delete_event event_id user db =
     (case execute (SELECT_isadmin_FROM_users_WHERE_name user) (get_mysql_connection db) of
        (Inl e, c1) \<Rightarrow> leave (Inl e) c1
      | (Inr rs, c1) \<Rightarrow>
          (case getitem (fetchall rs) 0 of
             Inl e \<Rightarrow> leave (Inl e) c1
           | Inr resp0 \<Rightarrow>
               if truthy_tuple resp0 then
                 (case execute (SELECT_id_FROM_event_WHERE_id event_id) c1 of
                    (Inl e, c2) \<Rightarrow> leave (Inl e) c2
                  | (Inr rs2, c2) \<Rightarrow>
                      (case fetchone rs2 of
                         None \<Rightarrow> leave (Inl (HTTPException 404 ''Task not found'')) c2
                       | Some check \<Rightarrow>
                           (case execute (DELETE_FROM_event_WHERE_id event_id) c2 of
                              (Inl e, c3) \<Rightarrow> leave (Inl e) c3
                            | (Inr _, c3) \<Rightarrow>
                                leave (Inr (JSONResponse ''Event has been deleted.'' 201)) (commit c3))))
               else leave (Inl (HTTPException 403 ''User hasn`t permissions for create event'')) c1))"

section \<open>A small store for the examples\<close>

text \<open>
  An administrator \<open>alice\<close>, an ordinary user \<open>bob\<close> whose row has the identifier 7, and
  one event with the identifier 1, no members yet, at noon of 1 January 2030.  The server
  runs in its default SQL mode.  \<open>canonical_eq\<close> is the instance of the store's comparison
  used in the examples: a path string matches an identifier when it is its decimal text.
\<close>

definition alice :: user_row where
  "alice = \<lparr>u_id = 1, u_name = lit ''alice'', u_surname = lit ''Liddell'',
             u_email = lit ''alice@example.org'', u_password = lit ''Secret'',
             u_phone = lit ''+380441234567'', u_isadmin = True\<rparr>"

definition bob :: user_row where
  "bob = \<lparr>u_id = 7, u_name = lit ''bob'', u_surname = lit ''Builder'',
           u_email = lit ''bob@example.org'', u_password = lit ''Secret'',
           u_phone = lit ''+380441234568'', u_isadmin = False\<rparr>"

definition party :: event_row where
  "party = \<lparr>e_id = 1, e_title = lit ''Party'', e_user = lit ''alice'',
             e_description = lit ''Tea'', e_members = Some [], e_time = 1893499200\<rparr>"

definition db0 :: database where
  "db0 = \<lparr>users = [alice, bob], event = [party], books = [],
           users_auto_increment = 8, event_auto_increment = 2,
           time_truncate_fractional = False\<rparr>"

definition canonical_eq :: "int \<Rightarrow> str \<Rightarrow> bool" where
  "canonical_eq i p = (p = str_int i)"

text \<open>
  The classification of the ASCII letters and digits, every other code point being in no
  class.  It agrees with the tables of the runtime on ASCII, and the validators consult
  the tables only at the characters of their argument (lemmas \<open>check_letters_cong\<close> and
  \<open>validate_password_cong\<close>); the strings of the examples are ASCII.
\<close>

definition ascii :: unicodedata where
  "ascii = \<lparr>islower = (\<lambda>c. ord CHR ''a'' \<le> c \<and> c \<le> ord CHR ''z''),
            isupper = (\<lambda>c. ord CHR ''A'' \<le> c \<and> c \<le> ord CHR ''Z''),
            isdigit = (\<lambda>c. ord CHR ''0'' \<le> c \<and> c \<le> ord CHR ''9'')\<rparr>"



text \<open>
  Two times of day on 1 January 2030 with the same date and time fields, 12:00:00, one at
  the offset +05:00 and one in UTC: they denote points five hours apart.  \<open>ball\<close> is the
  request to create an event at a given time.
\<close>

definition noon_plus5 :: datetime where
  "noon_plus5 = \<lparr>instant = 1893481200000000, wallclock = 1893499200, microsecond = 0,
                 utcoffset = Some 18000\<rparr>"

definition noon_utc :: datetime where
  "noon_utc = \<lparr>instant = 1893499200000000, wallclock = 1893499200, microsecond = 0,
               utcoffset = Some 0\<rparr>"

definition ball :: "datetime \<Rightarrow> Event" where
  "ball t = \<lparr>ev_title = lit ''Ball'', ev_user = lit ''alice'', ev_description = lit ''Dance'',
              ev_time = t\<rparr>"

section \<open>Facts about the store\<close>

lemma filter_unique_name:
  "distinct (map u_name us) \<Longrightarrow> u \<in> set us \<Longrightarrow> filter (\<lambda>x. u_name x = u_name u) us = [u]"
proof (induction us)
  case Nil
  then show ?case by simp
next
  case (Cons a us)
  show ?case
  proof (cases "a = u")
    case True
    with Cons.prems have "\<forall>x\<in>set us. u_name x \<noteq> u_name u" by (auto simp: image_iff)
    then have "filter (\<lambda>x. u_name x = u_name u) us = []" by (simp add: filter_empty_conv)
    with True show ?thesis by simp
  next
    case False
    with Cons.prems have u: "u \<in> set us" and d: "distinct (map u_name us)" by auto
    from Cons.prems u have "u_name a \<noteq> u_name u" by (auto simp: image_iff)
    with Cons.IH[OF d u] show ?thesis by simp
  qed
qed

text \<open>The authorization query, for a name that one row carries and for a name that no row
  carries.\<close>

lemma select_isadmin_found:
  assumes "distinct (map u_name (users db))" "u \<in> set (users db)" "u_name u = n"
  shows "execute (SELECT_isadmin_FROM_users_WHERE_name n) (get_mysql_connection db) =
           (Inr [[isadmin_cell u]],
            \<lparr>working = db, durable = db, executed = [SELECT_isadmin_FROM_users_WHERE_name n]\<rparr>)"
  using filter_unique_name[OF assms(1,2)] assms(3)
  by (simp add: execute_def get_mysql_connection_def sent_def)

lemma select_isadmin_missing:
  assumes "\<forall>u\<in>set (users db). u_name u \<noteq> n"
  shows "execute (SELECT_isadmin_FROM_users_WHERE_name n) (get_mysql_connection db) =
           (Inr [],
            \<lparr>working = db, durable = db, executed = [SELECT_isadmin_FROM_users_WHERE_name n]\<rparr>)"
proof -
  from assms have "filter (\<lambda>u. u_name u = n) (users db) = []" by (simp add: filter_empty_conv)
  then show ?thesis by (simp add: execute_def get_mysql_connection_def sent_def)
qed

lemmas store_defs = execute_def get_mysql_connection_def sent_def commit_def leave_def
  fetchone_def fetchall_def getitem_def truthy_tuple_def isadmin_cell_def members_cell_def

lemmas example_defs = db0_def alice_def bob_def party_def lit_def ord_def

lemmas decimal_defs = str_int_def nat_digits.simps

text \<open>The store keeps names unique: \<open>create_user\<close>, the only handler that inserts a user,
  preserves distinct names.\<close>

lemma create_user_keeps_names_distinct:
  assumes "distinct (map u_name (users db))"
  shows "distinct (map u_name (users (fst (snd (create_user ud user db)))))"
  using assms unfolding create_user_def
  by (auto simp: store_defs list_ex_iff split: sum.splits exn.splits prod.splits)

section \<open>The authorization check in each handler\<close>

text \<open>
  Event creation, edit, reschedule and RSVP each read the flag with \<open>fetchone\<close>: an unknown
  name ends the request with 404, a user whose flag is false ends it with 403, and in both
  cases the authorization query is the only statement sent and the store is untouched.
\<close>

lemma create_event_user_missing:
  assumes "\<forall>u\<in>set (users db). u_name u \<noteq> ev_user ev"
  shows "create_event ev db =
     (Inl (HTTPException 404 ''User not found''), db,
      [SELECT_isadmin_FROM_users_WHERE_name (ev_user ev)])"
  by (simp add: create_event_def select_isadmin_missing[OF assms] fetchone_def leave_def)

lemma create_event_forbidden:
  assumes "distinct (map u_name (users db))" "u \<in> set (users db)" "u_name u = ev_user ev"
    "\<not> u_isadmin u"
  shows "create_event ev db =
     (Inl (HTTPException 403 ''User hasn`t permissions for create event''), db,
      [SELECT_isadmin_FROM_users_WHERE_name (ev_user ev)])"
  using assms(4)
  by (simp add: create_event_def select_isadmin_found[OF assms(1-3)] fetchone_def getitem_def
      isadmin_cell_def leave_def)

lemma update_event_user_missing:
  assumes "\<forall>u\<in>set (users db). u_name u \<noteq> ee_user ev"
  shows "update_event i ev db =
     (Inl (HTTPException 404 ''User not found''), db,
      [SELECT_isadmin_FROM_users_WHERE_name (ee_user ev)])"
  by (simp add: update_event_def select_isadmin_missing[OF assms] fetchone_def leave_def)

lemma update_event_forbidden:
  assumes "distinct (map u_name (users db))" "u \<in> set (users db)" "u_name u = ee_user ev"
    "\<not> u_isadmin u"
  shows "update_event i ev db =
     (Inl (HTTPException 403 ''User hasn`t permissions for edit event''), db,
      [SELECT_isadmin_FROM_users_WHERE_name (ee_user ev)])"
  using assms(4)
  by (simp add: update_event_def select_isadmin_found[OF assms(1-3)] fetchone_def getitem_def
      isadmin_cell_def leave_def)

lemma update_date_user_missing:
  assumes "\<forall>u\<in>set (users db). u_name u \<noteq> user"
  shows "update_date i user t db =
     (Inl (HTTPException 404 ''User not found''), db,
      [SELECT_isadmin_FROM_users_WHERE_name user])"
  by (simp add: update_date_def select_isadmin_missing[OF assms] fetchone_def leave_def)

lemma update_date_forbidden:
  assumes "distinct (map u_name (users db))" "u \<in> set (users db)" "u_name u = user"
    "\<not> u_isadmin u"
  shows "update_date i user t db =
     (Inl (HTTPException 403 ''User hasn`t permissions for edit event''), db,
      [SELECT_isadmin_FROM_users_WHERE_name user])"
  using assms(4)
  by (simp add: update_date_def select_isadmin_found[OF assms(1-3)] fetchone_def getitem_def
      isadmin_cell_def leave_def)

lemma update_members_user_missing:
  assumes "\<forall>u\<in>set (users db). u_name u \<noteq> user"
  shows "update_members i user m db =
     (Inl (HTTPException 404 ''User not found''), db,
      [SELECT_isadmin_FROM_users_WHERE_name user])"
  by (simp add: update_members_def select_isadmin_missing[OF assms] fetchone_def leave_def)

lemma update_members_forbidden:
  assumes "distinct (map u_name (users db))" "u \<in> set (users db)" "u_name u = user"
    "\<not> u_isadmin u"
  shows "update_members i user m db =
     (Inl (HTTPException 403 ''User hasn`t permissions for edit event''), db,
      [SELECT_isadmin_FROM_users_WHERE_name user])"
  using assms(4)
  by (simp add: update_members_def select_isadmin_found[OF assms(1-3)] fetchone_def getitem_def
      isadmin_cell_def leave_def)

text \<open>With the flag true the edit and the reschedule go on to locate the event, and the
  RSVP to locate the event and then the member.\<close>

lemma update_event_admin:
  assumes "distinct (map u_name (users db))" "u \<in> set (users db)" "u_name u = ee_user ev"
    "u_isadmin u"
  shows "update_event i ev db =
     (if list_ex (\<lambda>e. e_id e = i) (event db)
      then (Inr (JSONResponse ''Event has been updated.'' 200),
            db\<lparr>event := map (\<lambda>e. if e_id e = i
                                 then e\<lparr>e_title := ee_title ev, e_description := ee_description ev\<rparr>
                                 else e) (event db)\<rparr>,
            [SELECT_isadmin_FROM_users_WHERE_name (ee_user ev), SELECT_id_FROM_event_WHERE_id i,
             UPDATE_event_SET_title_description (ee_title ev) (ee_description ev) i, COMMIT])
      else (Inl (HTTPException 404 ''Event not found''), db,
            [SELECT_isadmin_FROM_users_WHERE_name (ee_user ev), SELECT_id_FROM_event_WHERE_id i]))"
proof (cases "filter (\<lambda>e. e_id e = i) (event db)")
  case Nil
  then have "\<not> list_ex (\<lambda>e. e_id e = i) (event db)"
    by (simp add: list_ex_iff filter_empty_conv)
  with Nil assms(4) show ?thesis
    unfolding update_event_def select_isadmin_found[OF assms(1-3)] by (simp add: store_defs)
next
  case (Cons a as)
  then have "list_ex (\<lambda>e. e_id e = i) (event db)"
    by (metis filter_empty_conv list.distinct(1) list_ex_iff)
  with Cons assms(4) show ?thesis
    unfolding update_event_def select_isadmin_found[OF assms(1-3)] by (simp add: store_defs)
qed

lemma update_date_admin:
  assumes "distinct (map u_name (users db))" "u \<in> set (users db)" "u_name u = user"
    "u_isadmin u"
  shows "update_date i user t db =
     (if list_ex (\<lambda>e. e_id e = i) (event db)
      then (Inr (JSONResponse ''Event has been updated.'' 200),
            db\<lparr>event := map (\<lambda>e. if e_id e = i
                                 then e\<lparr>e_time := as_DATETIME (time_truncate_fractional db) t\<rparr>
                                 else e) (event db)\<rparr>,
            [SELECT_isadmin_FROM_users_WHERE_name user, SELECT_id_FROM_event_WHERE_id i,
             UPDATE_event_SET_time t i, COMMIT])
      else (Inl (HTTPException 404 ''Event not found''), db,
            [SELECT_isadmin_FROM_users_WHERE_name user, SELECT_id_FROM_event_WHERE_id i]))"
proof (cases "filter (\<lambda>e. e_id e = i) (event db)")
  case Nil
  then have "\<not> list_ex (\<lambda>e. e_id e = i) (event db)"
    by (simp add: list_ex_iff filter_empty_conv)
  with Nil assms(4) show ?thesis
    unfolding update_date_def select_isadmin_found[OF assms(1-3)] by (simp add: store_defs)
next
  case (Cons a as)
  then have "list_ex (\<lambda>e. e_id e = i) (event db)"
    by (metis filter_empty_conv list.distinct(1) list_ex_iff)
  with Cons assms(4) show ?thesis
    unfolding update_date_def select_isadmin_found[OF assms(1-3)] by (simp add: store_defs)
qed

lemma update_members_admin:
  assumes "distinct (map u_name (users db))" "u \<in> set (users db)" "u_name u = user"
    "u_isadmin u"
  shows "update_members i user m db =
     (case filter (\<lambda>e. e_id e = i) (event db) of
        [] \<Rightarrow> (Inl (HTTPException 404 ''Event not found''), db,
               [SELECT_isadmin_FROM_users_WHERE_name user, SELECT_members_FROM_event_WHERE_id i])
      | e # _ \<Rightarrow>
          if list_ex (\<lambda>x. u_id x = m) (users db)
          then (Inr (JSONResponse ''Member has been added.'' 201),
                db\<lparr>event := map (\<lambda>x. if e_id x = i
                                     then x\<lparr>e_members := Some (format (members_cell e) @ str_int m @ lit '','')\<rparr>
                                     else x) (event db)\<rparr>,
                [SELECT_isadmin_FROM_users_WHERE_name user, SELECT_members_FROM_event_WHERE_id i,
                 SELECT_id_FROM_users_WHERE_id m,
                 UPDATE_event_SET_members (format (members_cell e) @ str_int m @ lit '','') i, COMMIT])
          else (Inl (HTTPException 404 ''Member not found''), db,
                [SELECT_isadmin_FROM_users_WHERE_name user, SELECT_members_FROM_event_WHERE_id i,
                 SELECT_id_FROM_users_WHERE_id m]))"
proof (cases "filter (\<lambda>e. e_id e = i) (event db)")
  case Nil
  with assms(4) show ?thesis
    unfolding update_members_def select_isadmin_found[OF assms(1-3)] by (simp add: store_defs)
next
  case located: (Cons e es)
  show ?thesis
  proof (cases "filter (\<lambda>x. u_id x = m) (users db)")
    case Nil
    then have "\<not> list_ex (\<lambda>x. u_id x = m) (users db)"
      by (simp add: list_ex_iff filter_empty_conv)
    with Nil located assms(4) show ?thesis
      unfolding update_members_def select_isadmin_found[OF assms(1-3)] by (simp add: store_defs)
  next
    case (Cons a as)
    then have "list_ex (\<lambda>x. u_id x = m) (users db)"
      by (metis filter_empty_conv list.distinct(1) list_ex_iff)
    with Cons located assms(4) show ?thesis
      unfolding update_members_def select_isadmin_found[OF assms(1-3)]
      by (auto simp: store_defs)
  qed
qed

text \<open>
  \<open>delete_event\<close> never looks at the flag.  For any stored user, administrator or not, it
  goes on to locate the event and deletes it; for an unknown name, indexing the empty tuple
  raises before any answer is built.  The 403 branch is dead.
\<close>

lemma delete_event_existing_user:
  assumes "distinct (map u_name (users db))" "u \<in> set (users db)" "u_name u = user"
  shows "delete_event i user db =
     (if list_ex (\<lambda>e. e_id e = i) (event db)
      then (Inr (JSONResponse ''Event has been deleted.'' 201),
            db\<lparr>event := filter (\<lambda>e. e_id e \<noteq> i) (event db)\<rparr>,
            [SELECT_isadmin_FROM_users_WHERE_name user, SELECT_id_FROM_event_WHERE_id i,
             DELETE_FROM_event_WHERE_id i, COMMIT])
      else (Inl (HTTPException 404 ''Task not found''), db,
            [SELECT_isadmin_FROM_users_WHERE_name user, SELECT_id_FROM_event_WHERE_id i]))"
proof (cases "filter (\<lambda>e. e_id e = i) (event db)")
  case Nil
  then have "\<not> list_ex (\<lambda>e. e_id e = i) (event db)"
    by (simp add: list_ex_iff filter_empty_conv)
  with Nil show ?thesis
    unfolding delete_event_def select_isadmin_found[OF assms(1-3)] by (simp add: store_defs)
next
  case (Cons a as)
  then have "list_ex (\<lambda>e. e_id e = i) (event db)"
    by (metis filter_empty_conv list.distinct(1) list_ex_iff)
  with Cons show ?thesis
    unfolding delete_event_def select_isadmin_found[OF assms(1-3)] by (simp add: store_defs)
qed

lemma delete_event_user_missing:
  assumes "\<forall>u\<in>set (users db). u_name u \<noteq> user"
  shows "delete_event i user db =
     (Inl IndexError, db, [SELECT_isadmin_FROM_users_WHERE_name user])"
  unfolding delete_event_def select_isadmin_missing[OF assms] by (simp add: store_defs)

lemma delete_event_never_forbidden:
  "fst (delete_event i user db) \<noteq> Inl (HTTPException 403 d)"
  unfolding delete_event_def
  by (auto simp: store_defs split: prod.splits sum.splits option.splits list.splits if_splits)

text \<open>
  C1.  Every mutating event operation is to answer 404 for an unknown acting user and 403,
  without mutation, for a user whose administrator flag is false.  \<open>delete_event\<close> does
  neither: for the stored non-administrator \<open>bob\<close> it answers 201 and the event is gone, and
  for the unknown name \<open>carol\<close> it raises \<open>IndexError\<close>.
\<close>

theorem delete_event_skips_administrator_check:
  "delete_event 1 (lit ''bob'') db0 =
     (Inr (JSONResponse ''Event has been deleted.'' 201), db0\<lparr>event := []\<rparr>,
      [SELECT_isadmin_FROM_users_WHERE_name (lit ''bob''), SELECT_id_FROM_event_WHERE_id 1,
       DELETE_FROM_event_WHERE_id 1, COMMIT])
   \<and> delete_event 1 (lit ''carol'') db0 =
     (Inl IndexError, db0, [SELECT_isadmin_FROM_users_WHERE_name (lit ''carol'')])"
  by (simp add: delete_event_def store_defs example_defs)

section \<open>RSVP\<close>

text \<open>The identifier read from \<open>users.id\<close> is an \<open>int\<close>, the fields of the split members
  text are \<open>str\<close>: the membership test never finds it, and the 409 branch is dead.\<close>

lemma update_members_never_conflict:
  "fst (update_members i user m db) \<noteq> Inl (HTTPException 409 d)"
  unfolding update_members_def
  by (auto simp: store_defs split: prod.splits sum.splits option.splits list.splits if_splits)

text \<open>
  C2.  An RSVP for a member already in the members list is to answer 409 and leave the
  list alone; the same RSVP twice is to answer 201, then 409.  On the code the second
  request answers 201 as the first did, and the member is listed twice.
\<close>

theorem update_members_twice_no_conflict:
  "update_members 1 (lit ''alice'') 7 db0 =
     (Inr (JSONResponse ''Member has been added.'' 201),
      db0\<lparr>event := [party\<lparr>e_members := Some (lit ''7,'')\<rparr>]\<rparr>,
      [SELECT_isadmin_FROM_users_WHERE_name (lit ''alice''), SELECT_members_FROM_event_WHERE_id 1,
       SELECT_id_FROM_users_WHERE_id 7, UPDATE_event_SET_members (lit ''7,'') 1, COMMIT])
   \<and> update_members 1 (lit ''alice'') 7 (db0\<lparr>event := [party\<lparr>e_members := Some (lit ''7,'')\<rparr>]\<rparr>) =
     (Inr (JSONResponse ''Member has been added.'' 201),
      db0\<lparr>event := [party\<lparr>e_members := Some (lit ''7,7,'')\<rparr>]\<rparr>,
      [SELECT_isadmin_FROM_users_WHERE_name (lit ''alice''), SELECT_members_FROM_event_WHERE_id 1,
       SELECT_id_FROM_users_WHERE_id 7, UPDATE_event_SET_members (lit ''7,7,'') 1, COMMIT])"
  by (simp add: update_members_def store_defs example_defs decimal_defs)

section \<open>Reschedule\<close>

text \<open>
  C3.  A reschedule request whose \<open>datetime_\<close> is not strictly after the instant
  of validation never reaches the handler: the framework rejects it with its request
  validation error, which it answers with status 422, no statement is sent and the store
  is unchanged.
\<close>

theorem reschedule_not_future_rejected:
  assumes "\<not> now < instant datetime'"
  shows "PATCH_reschedule now id' user datetime' db = (Inl RequestValidationError, db, [])
       \<and> status_code (fst (PATCH_reschedule now id' user datetime' db)) = 422"
  using assms by (simp add: PATCH_reschedule_def FutureDatetime_def)

text \<open>At an instant in March 2030, noon of 1 January 2030 is past.\<close>

theorem reschedule_not_future_rejected_witness:
  "PATCH_reschedule 1900000000000000 1 (lit ''alice'') noon_utc db0 =
     (Inl RequestValidationError, db0, [])
   \<and> status_code (fst (PATCH_reschedule 1900000000000000 1 (lit ''alice'') noon_utc db0)) = 422"
proof -
  have h: "\<not> 1900000000000000 < instant noon_utc" by (simp add: noon_utc_def)
  show ?thesis using reschedule_not_future_rejected[OF h] by simp
qed

text \<open>The status of that rejection is not 400.\<close>

theorem reschedule_not_future_status_not_400:
  "status_code (fst (PATCH_reschedule 1900000000000000 1 (lit ''alice'') noon_utc db0)) \<noteq> 400"
  by (simp add: PATCH_reschedule_def FutureDatetime_def noon_utc_def)

section \<open>Order of authorization and lookup\<close>

text \<open>
  For edit, reschedule and RSVP the lemmas \<open>update_event_forbidden\<close>,
  \<open>update_date_forbidden\<close> and \<open>update_members_forbidden\<close> hold whether or not the event
  exists, and the only statement sent is the authorization query.

  C4.  A non-administrator acting on an event that does not exist is to get 403, never the
  event's 404, the lookup of the event coming only after a successful authorization.
  \<open>delete_event\<close> sends the lookup for the non-administrator \<open>bob\<close> and answers with the
  event's 404.
\<close>

theorem delete_event_locates_without_authorization:
  "delete_event 999 (lit ''bob'') db0 =
     (Inl (HTTPException 404 ''Task not found''), db0,
      [SELECT_isadmin_FROM_users_WHERE_name (lit ''bob''), SELECT_id_FROM_event_WHERE_id 999])"
  by (simp add: delete_event_def store_defs example_defs)

section \<open>The validators\<close>

text \<open>The validators look at the tables only at the characters of their argument.\<close>

lemma check_letters_cong:
  assumes "\<forall>c\<in>set v. isdigit ud c = isdigit ud' c"
  shows "check_letters ud v = check_letters ud' v"
  using assms by (simp add: check_letters_def list_ex_iff)

lemma validate_password_cong:
  assumes "\<forall>c\<in>set v. islower ud c = islower ud' c" "\<forall>c\<in>set v. isupper ud c = isupper ud' c"
  shows "validate_password ud v = validate_password ud' v"
  using assms by (simp add: validate_password_def discard_def list_ex_iff)

text \<open>
  C5.  \<open>validate_password\<close> raises a 400 error for a password without a lowercase letter
  and for one without an uppercase letter; a password with both is returned unchanged,
  whatever else it contains: the digit and the special-character branches build an error
  and drop it.  This holds for every classification of the characters.
\<close>

theorem validate_password_cases:
  "((\<forall>c\<in>set v. \<not> islower ud c) \<longrightarrow>
      validate_password ud v =
        Inl (HTTPException 400 ''Password must contain at least one lowercase letter''))
 \<and> ((\<exists>c\<in>set v. islower ud c) \<and> (\<forall>c\<in>set v. \<not> isupper ud c) \<longrightarrow>
      validate_password ud v =
        Inl (HTTPException 400 ''Password must contain at least one uppercase letter''))
 \<and> ((\<exists>c\<in>set v. islower ud c) \<and> (\<exists>c\<in>set v. isupper ud c) \<longrightarrow>
      validate_password ud v = Inr v)"
  by (auto simp: validate_password_def discard_def list_ex_iff)

text \<open>Three passwords, one for each case; the last has neither a digit nor a special
  character.\<close>

theorem validate_password_cases_witness:
  "validate_password ascii (lit ''ABC1!'') =
     Inl (HTTPException 400 ''Password must contain at least one lowercase letter'')
 \<and> validate_password ascii (lit ''abc1!'') =
     Inl (HTTPException 400 ''Password must contain at least one uppercase letter'')
 \<and> \<not> list_ex (isdigit ascii) (lit ''abC'')
 \<and> \<not> list_ex (\<lambda>c. c \<in> set special_characters) (lit ''abC'')
 \<and> validate_password ascii (lit ''abC'') = Inr (lit ''abC'')"
proof -
  have 1: "\<forall>c\<in>set (lit ''ABC1!''). \<not> islower ascii c"
    by (simp add: ascii_def lit_def ord_def)
  have 2: "(\<exists>c\<in>set (lit ''abc1!''). islower ascii c) \<and> (\<forall>c\<in>set (lit ''abc1!''). \<not> isupper ascii c)"
    by (simp add: ascii_def lit_def ord_def)
  have 3: "(\<exists>c\<in>set (lit ''abC''). islower ascii c) \<and> (\<exists>c\<in>set (lit ''abC''). isupper ascii c)"
    by (simp add: ascii_def lit_def ord_def)
  have 4: "\<not> list_ex (isdigit ascii) (lit ''abC'')
         \<and> \<not> list_ex (\<lambda>c. c \<in> set special_characters) (lit ''abC'')"
    by (simp add: ascii_def special_characters_def lit_def ord_def)
  show ?thesis
    using validate_password_cases[of "lit ''ABC1!''" ascii]
      validate_password_cases[of "lit ''abc1!''" ascii]
      validate_password_cases[of "lit ''abC''" ascii] 1 2 3 4
    by blast
qed

section \<open>Edit\<close>

text \<open>
  C6.  When \<open>update_event\<close> returns normally, the rows of \<open>users\<close> and \<open>books\<close> are as
  before, the event table has the same rows in the same order, every row keeps its
  identifier, user, time and members, a row with another identifier is unchanged, and the
  targeted row has the request's title and description.
\<close>

theorem update_event_frame:
  assumes "update_event id' event' db = (Inr r, db', tr)"
  shows "users db' = users db \<and> books db' = books db
       \<and> length (event db') = length (event db)
       \<and> (\<forall>k<length (event db).
             e_id (event db' ! k) = e_id (event db ! k)
           \<and> e_user (event db' ! k) = e_user (event db ! k)
           \<and> e_time (event db' ! k) = e_time (event db ! k)
           \<and> e_members (event db' ! k) = e_members (event db ! k)
           \<and> (if e_id (event db ! k) = id'
              then e_title (event db' ! k) = ee_title event'
                 \<and> e_description (event db' ! k) = ee_description event'
              else event db' ! k = event db ! k))"
proof -
  from assms have "db' = db\<lparr>event := map (\<lambda>e. if e_id e = id'
                                 then e\<lparr>e_title := ee_title event', e_description := ee_description event'\<rparr>
                                 else e) (event db)\<rparr>"
    unfolding update_event_def
    by (auto simp: store_defs split: prod.splits sum.splits option.splits list.splits if_splits)
  then show ?thesis by simp
qed

theorem update_event_frame_witness:
  "update_event 1 \<lparr>ee_title = lit ''Ball'', ee_user = lit ''alice'', ee_description = lit ''Dance''\<rparr> db0 =
     (Inr (JSONResponse ''Event has been updated.'' 200),
      db0\<lparr>event := [party\<lparr>e_title := lit ''Ball'', e_description := lit ''Dance''\<rparr>]\<rparr>,
      [SELECT_isadmin_FROM_users_WHERE_name (lit ''alice''), SELECT_id_FROM_event_WHERE_id 1,
       UPDATE_event_SET_title_description (lit ''Ball'') (lit ''Dance'') 1, COMMIT])
   \<and> users (db0\<lparr>event := [party\<lparr>e_title := lit ''Ball'', e_description := lit ''Dance''\<rparr>]\<rparr>) = users db0
   \<and> e_user (party\<lparr>e_title := lit ''Ball'', e_description := lit ''Dance''\<rparr>) = e_user party
   \<and> e_time (party\<lparr>e_title := lit ''Ball'', e_description := lit ''Dance''\<rparr>) = e_time party
   \<and> e_members (party\<lparr>e_title := lit ''Ball'', e_description := lit ''Dance''\<rparr>) = e_members party"
proof -
  have h: "update_event 1 \<lparr>ee_title = lit ''Ball'', ee_user = lit ''alice'', ee_description = lit ''Dance''\<rparr> db0 =
     (Inr (JSONResponse ''Event has been updated.'' 200),
      db0\<lparr>event := [party\<lparr>e_title := lit ''Ball'', e_description := lit ''Dance''\<rparr>]\<rparr>,
      [SELECT_isadmin_FROM_users_WHERE_name (lit ''alice''), SELECT_id_FROM_event_WHERE_id 1,
       UPDATE_event_SET_title_description (lit ''Ball'') (lit ''Dance'') 1, COMMIT])"
    by (simp add: update_event_def store_defs example_defs)
  have e: "event db0 = [party]" by (simp add: db0_def)
  show ?thesis using update_event_frame[OF h] h by (simp add: e)
qed

section \<open>Reading by identifier\<close>

text \<open>
  C7.  \<open>get_for_id_event\<close> for a path string that matches no event row returns the empty
  list, which is sent with status 200; nothing raises a 404.
\<close>

theorem get_for_id_event_no_match:
  assumes "\<forall>e\<in>set (event db). \<not> eq (e_id e) event_id"
  shows "get_for_id_event eq event_id db =
           (Inr (ReturnedEvents []), db, [SELECT_all_FROM_event_WHERE_id event_id])
       \<and> status_code (fst (get_for_id_event eq event_id db)) = 200"
proof -
  from assms have "filter (\<lambda>e. eq (e_id e) event_id) (event db) = []"
    by (simp add: filter_empty_conv)
  then show ?thesis
    by (simp add: get_for_id_event_def execute_dict_event_def store_defs)
qed

theorem get_for_id_event_no_match_witness:
  "get_for_id_event canonical_eq (lit ''999'') db0 =
           (Inr (ReturnedEvents []), db0, [SELECT_all_FROM_event_WHERE_id (lit ''999'')])
       \<and> status_code (fst (get_for_id_event canonical_eq (lit ''999'') db0)) = 200"
proof -
  have h: "\<forall>e\<in>set (event db0). \<not> canonical_eq (e_id e) (lit ''999'')"
    by (simp add: example_defs canonical_eq_def decimal_defs)
  show ?thesis
    using get_for_id_event_no_match[where eq = canonical_eq and event_id = "lit ''999''"
        and db = db0, OF h]
    by simp
qed

text \<open>
  C10.  The two handlers take the path string as it comes: for every string they send the
  one parameterized \<open>SELECT\<close> with that string and return the selected rows, with status
  200.
\<close>

theorem get_for_id_accepts_any_string:
  "get_for_id_book eq book_id db =
     (Inr (ReturnedBooks (filter (\<lambda>b. eq (b_id b) book_id) (books db))), db,
      [SELECT_all_FROM_books_WHERE_id book_id])
 \<and> get_for_id_event eq event_id db =
     (Inr (ReturnedEvents (filter (\<lambda>e. eq (e_id e) event_id) (event db))), db,
      [SELECT_all_FROM_event_WHERE_id event_id])
 \<and> status_code (fst (get_for_id_book eq book_id db)) = 200
 \<and> status_code (fst (get_for_id_event eq event_id db)) = 200"
  by (simp add: get_for_id_book_def get_for_id_event_def execute_dict_books_def
      execute_dict_event_def store_defs)

section \<open>Event creation\<close>

text \<open>A time without a fraction of a second is kept as its date and time fields, in either
  SQL mode.\<close>

lemma as_DATETIME_whole_second:
  "microsecond v = 0 \<Longrightarrow> as_DATETIME mode v = wallclock v"
  by (simp add: as_DATETIME_def)

text \<open>
  C8.  When the acting user of an event creation is a stored administrator, the handler
  answers 201 and the store gains exactly one event row, with the supplied title, user and
  description, with empty members, and with the date and time fields of the supplied time
  at the precision of a second, its UTC offset being dropped; the statements sent are the
  authorization query, the insert and the commit, with no lookup of an event.
\<close>

theorem create_event_by_administrator:
  assumes "distinct (map u_name (users db))" "u \<in> set (users db)" "u_name u = ev_user event'"
    "u_isadmin u"
  shows "create_event event' db =
     (Inr (JSONResponse ''Event has been added.'' 201),
      db\<lparr>event := event db @
             [\<lparr>e_id = event_auto_increment db, e_title = ev_title event', e_user = ev_user event',
               e_description = ev_description event', e_members = Some [],
               e_time = as_DATETIME (time_truncate_fractional db) (ev_time event')\<rparr>],
         event_auto_increment := event_auto_increment db + 1\<rparr>,
      [SELECT_isadmin_FROM_users_WHERE_name (ev_user event'),
       INSERT_INTO_event (ev_title event') (ev_user event') (ev_description event') (ev_time event'),
       COMMIT])"
  using assms(4) unfolding create_event_def select_isadmin_found[OF assms(1-3)]
  by (simp add: store_defs)

theorem create_event_by_administrator_witness:
  "create_event (ball noon_plus5) db0 =
     (Inr (JSONResponse ''Event has been added.'' 201),
      db0\<lparr>event := [party, \<lparr>e_id = 2, e_title = lit ''Ball'', e_user = lit ''alice'',
               e_description = lit ''Dance'', e_members = Some [], e_time = 1893499200\<rparr>],
         event_auto_increment := 3\<rparr>,
      [SELECT_isadmin_FROM_users_WHERE_name (lit ''alice''),
       INSERT_INTO_event (lit ''Ball'') (lit ''alice'') (lit ''Dance'') noon_plus5, COMMIT])"
proof -
  have 1: "distinct (map u_name (users db0))" by (simp add: example_defs)
  have 2: "alice \<in> set (users db0)" by (simp add: db0_def)
  have 3: "u_name alice = ev_user (ball noon_plus5)" by (simp add: alice_def ball_def)
  have 4: "u_isadmin alice" by (simp add: alice_def)
  show ?thesis
    using create_event_by_administrator[OF 1 2 3 4]
    by (simp add: db0_def ball_def noon_plus5_def as_DATETIME_def)
qed

text \<open>The supplied time is not stored as given: the two requests \<open>ball noon_plus5\<close> and
  \<open>ball noon_utc\<close> name points five hours apart and leave the same store.\<close>

theorem create_event_time_not_kept:
  "instant (ev_time (ball noon_plus5)) \<noteq> instant (ev_time (ball noon_utc))
 \<and> fst (snd (create_event (ball noon_plus5) db0)) = fst (snd (create_event (ball noon_utc) db0))"
  by (simp add: create_event_def store_defs example_defs ball_def noon_plus5_def noon_utc_def
      as_DATETIME_def)

section \<open>User creation\<close>




end
